theory Spec2Isabelle
  imports Main "HOL-Library.Word"
begin

section \<open>Data model of the transpose-optimization extension layer\<close>

text \<open>Modelled from the spec: the graph interface \<^verbatim>\<open>api::GraphRef\<close> /
  \<^verbatim>\<open>api::NodeRef\<close> / \<^verbatim>\<open>api::ValueInfoRef\<close>, through which
  \<^verbatim>\<open>ort_transpose_optimization.cc\<close> works on a graph, is declared and implemented
  outside the source files. The records below follow the data model of section 3: a node
  has an operator type, a domain, a since-version, ordered inputs and outputs (an empty
  name is an unused optional slot), attributes by name, and an assigned execution
  provider, which is empty before assignment. Integers of the source are
  \<^verbatim>\<open>int64_t\<close>, sizes are natural numbers.\<close>

type_synonym int64 = "64 word"

type_synonym perm = "int64 list"

datatype fault =
    InvalidNodeRef   \<comment> \<open>a node reference that does not denote a live node\<close>
  | OutOfRange       \<comment> \<open>\<^verbatim>\<open>v[i]\<close> on a \<^verbatim>\<open>std::vector\<close> with \<^verbatim>\<open>i >= v.size()\<close>\<close>
  | RankBelowTwo     \<comment> \<open>\<^verbatim>\<open>ChannelLastToFirstPerm\<close> called with rank < 2\<close>
  | EnforceFailed    \<comment> \<open>\<^verbatim>\<open>ORT_ENFORCE\<close> / \<^verbatim>\<open>ORT_THROW_IF_ERROR\<close> threw\<close>

datatype DataType =
    UNDEFINED | FLOAT | UINT8 | INT8 | UINT16 | INT16 | INT32 | INT64 | STRING | BOOL
  | FLOAT16 | DOUBLE | UINT32 | UINT64 | COMPLEX64 | COMPLEX128 | BFLOAT16

datatype AttributeValue =
    AttrInt int64
  | AttrString string
  | AttrInts "int64 list"

record Node =
  OpType :: string
  Domain :: string
  SinceVersion :: int
  Inputs :: "string list"
  Outputs :: "string list"
  Attributes :: "string \<rightharpoonup> AttributeValue"
  ExecutionProviderType :: string

record ValueInfo =
  Shape :: "int64 list option"
  DType :: DataType

text \<open>
  The graph owns its nodes. A node reference is the index of the node in the graph's
  node table; a removed node leaves an empty entry, so that indices are never reused.
  Values (tensors) are identified by name; an empty name is an unused optional slot.
\<close>

record Graph =
  nodes :: "Node option list"
  value_info :: "string \<Rightarrow> ValueInfo"

definition GetNode :: "Graph \<Rightarrow> nat \<Rightarrow> Node option" where
  "GetNode g i = (if i < length (nodes g) then nodes g ! i else None)"

definition update_node :: "Graph \<Rightarrow> nat \<Rightarrow> (Node \<Rightarrow> Node) \<Rightarrow> Graph" where
  "update_node g i f = g\<lparr>nodes := (nodes g)[i := map_option f (GetNode g i)]\<rparr>"

text \<open>Modelled from the spec: \<^verbatim>\<open>GraphRef::GetValueInfo\<close> (query value shape and element
  type, section 6), whose implementation is not part of the source files.\<close>

definition GetValueInfo :: "Graph \<Rightarrow> string \<Rightarrow> ValueInfo" where
  "GetValueInfo g name = value_info g name"

text \<open>Modelled from the spec: \<^verbatim>\<open>GraphRef::CopyNode\<close> (copy-node-with-new-identity,
  sections 4.2 and 6), whose implementation is not part of the source files. The new node is
  a structural copy of the source node's inputs and attributes under the new operator type
  and domain; an absent version keeps the existing one. It has as many output slots as the
  source node, all of them still empty, and it is added to the graph under a fresh index.\<close>

definition CopyNode ::
  "Graph \<Rightarrow> nat \<Rightarrow> string \<Rightarrow> string \<Rightarrow> int option \<Rightarrow> fault + (nat \<times> Graph)" where
  "CopyNode g source_node op_type domain since_version =
     (case GetNode g source_node of
        None \<Rightarrow> Inl InvalidNodeRef
      | Some n \<Rightarrow>
          Inr (length (nodes g),
               g\<lparr>nodes := nodes g @
                  [Some (n\<lparr>OpType := op_type,
                           Domain := domain,
                           SinceVersion := (case since_version of
                                              None \<Rightarrow> SinceVersion n
                                            | Some v \<Rightarrow> v),
                           Outputs := replicate (length (Outputs n)) ''''\<rparr>)]\<rparr>))"

text \<open>Modelled from the spec: \<^verbatim>\<open>GraphRef::MoveOutput\<close> (move-output-between-nodes,
  sections 4.2 and 6), whose implementation is not part of the source files. Output slot
  \<open>src_idx\<close> of the source node is re-pointed to slot \<open>dst_idx\<close> of the destination node:
  the destination slot now carries the value, the source slot becomes empty.\<close>

definition MoveOutput :: "Graph \<Rightarrow> nat \<Rightarrow> nat \<Rightarrow> nat \<Rightarrow> nat \<Rightarrow> Graph" where
  "MoveOutput g src_node src_idx dst_node dst_idx =
     (case (GetNode g src_node, GetNode g dst_node) of
        (Some s, Some d) \<Rightarrow>
          if src_idx < length (Outputs s) \<and> dst_idx < length (Outputs d) then
            update_node
              (update_node g dst_node (\<lambda>d. d\<lparr>Outputs := (Outputs d)[dst_idx := Outputs s ! src_idx]\<rparr>))
              src_node (\<lambda>s. s\<lparr>Outputs := (Outputs s)[src_idx := '''']\<rparr>)
          else g
      | _ \<Rightarrow> g)"

text \<open>Modelled from the spec: \<^verbatim>\<open>GraphRef::RemoveNode\<close> (remove-node, section 6), whose
  implementation is not part of the source files.\<close>

definition RemoveNode :: "Graph \<Rightarrow> nat \<Rightarrow> Graph" where
  "RemoveNode g node = g\<lparr>nodes := (nodes g)[node := None]\<rparr>"

section \<open>Node replacement primitive\<close>

text \<open>
  \<^verbatim>\<open>
  auto outputs = node.Outputs();
  auto new_node = graph.CopyNode(node, op_type, domain, since_version);
  for (size_t j = 0; j < outputs.size(); ++j) {
    if (outputs[j] != "") {
      graph.MoveOutput(node, j, *new_node, j);
    }
  }
  graph.RemoveNode(node);
  return new_node;
  \<close>
\<close>

definition move_outputs :: "string list \<Rightarrow> nat \<Rightarrow> nat \<Rightarrow> Graph \<Rightarrow> Graph" where
  "move_outputs outputs node new_node g =
     fold (\<lambda>j g. if outputs ! j \<noteq> '''' then MoveOutput g node j new_node j else g)
          [0..<length outputs] g"

definition SwapNodeImpl ::
  "Graph \<Rightarrow> nat \<Rightarrow> string \<Rightarrow> string \<Rightarrow> int option \<Rightarrow> fault + (nat \<times> Graph)" where
  "SwapNodeImpl graph node op_type domain since_version =
     (case GetNode graph node of
        None \<Rightarrow> Inl InvalidNodeRef
      | Some n \<Rightarrow>
          let outputs = Outputs n in
          (case CopyNode graph node op_type domain since_version of
             Inl e \<Rightarrow> Inl e
           | Inr (new_node, g1) \<Rightarrow>
               Inr (new_node, RemoveNode (move_outputs outputs node new_node g1) node)))"

definition SwapNodeOpTypeAndDomain ::
  "Graph \<Rightarrow> nat \<Rightarrow> string \<Rightarrow> string \<Rightarrow> fault + (nat \<times> Graph)" where
  "SwapNodeOpTypeAndDomain graph node op_type domain =
     SwapNodeImpl graph node op_type domain None"

definition SwapNodeOpTypeDomainAndSinceVersion ::
  "Graph \<Rightarrow> nat \<Rightarrow> string \<Rightarrow> string \<Rightarrow> int \<Rightarrow> fault + (nat \<times> Graph)" where
  "SwapNodeOpTypeDomainAndSinceVersion graph node op_type domain since_version =
     SwapNodeImpl graph node op_type domain (Some since_version)"

section \<open>Handler context\<close>

text \<open>
  \<^verbatim>\<open>OptimizerCtx\<close> and \<^verbatim>\<open>HandlerArgs\<close> are declared by the generic optimizer; only
  the members read by this layer are kept. The context carries the graph handle and the
  provider type the optimizer runs for, which is distinct from the provider a node is
  assigned to (\<open>ExecutionProviderType\<close>).
\<close>

record OptimizerCtx =
  graph :: Graph
  provider_type :: string

record HandlerArgs =
  ctx :: OptimizerCtx
  node :: nat
  perm :: perm
  perm_inv :: perm

text \<open>
  The generic handlers and rewrite helpers of the external optimizer are parameters of the
  model: each takes the context (with the current graph) and returns the graph it leaves.
  The provider names of \<^verbatim>\<open>core/graph/constants.h\<close> are parameters as well.
\<close>

record External =
  HandleResize :: "HandlerArgs \<Rightarrow> bool \<times> Graph"
  TransposeFirstInput :: "OptimizerCtx \<Rightarrow> nat \<Rightarrow> perm \<Rightarrow> Graph"
  TransposeOutputs :: "OptimizerCtx \<Rightarrow> nat \<Rightarrow> perm \<Rightarrow> Graph"

record ProviderNames =
  kCpuExecutionProvider :: string
  kCudaExecutionProvider :: string
  kRocmExecutionProvider :: string
  kQnnExecutionProvider :: string
  kInternalTestingExecutionProvider :: string

text \<open>Modelled from the spec: \<^verbatim>\<open>ChannelLastToFirstPerm\<close> (section 4.1), defined by the
  generic optimizer outside the source files: the result is \<open>[0, rank-1, 1, 2, ..., rank-2]\<close>,
  and the function is undefined (fails) for rank < 2.\<close>

definition ChannelLastToFirstPerm :: "nat \<Rightarrow> fault + perm" where
  "ChannelLastToFirstPerm rank =
     (if rank < 2 then Inl RankBelowTwo
      else Inr (0 # of_nat (rank - 1) # map of_nat [1..<rank - 1]))"

text \<open>Modelled from the spec: the attribute accessors of \<^verbatim>\<open>api::NodeRef\<close> (get/set/clear
  attributes, section 6), whose implementation is not part of the source files.\<close>

definition GetAttributeIntDefault :: "Node \<Rightarrow> string \<Rightarrow> int64 \<Rightarrow> int64" where
  "GetAttributeIntDefault n name default_value =
     (case Attributes n name of Some (AttrInt v) \<Rightarrow> v | _ \<Rightarrow> default_value)"

definition GetAttributeString :: "Node \<Rightarrow> string \<Rightarrow> string option" where
  "GetAttributeString n name =
     (case Attributes n name of Some (AttrString s) \<Rightarrow> Some s | _ \<Rightarrow> None)"

definition SetAttributeInt :: "Graph \<Rightarrow> nat \<Rightarrow> string \<Rightarrow> int64 \<Rightarrow> Graph" where
  "SetAttributeInt g i name v =
     update_node g i (\<lambda>n. n\<lparr>Attributes := (Attributes n)(name \<mapsto> AttrInt v)\<rparr>)"

definition ClearAttribute :: "Graph \<Rightarrow> nat \<Rightarrow> string \<Rightarrow> Graph" where
  "ClearAttribute g i name =
     update_node g i (\<lambda>n. n\<lparr>Attributes := (Attributes n)(name := None)\<rparr>)"

text \<open>Modelled from the spec: \<^verbatim>\<open>NodeRef::IsOp\<close> with its domain argument left at the
  default: the node is the operator of that bare name in the default domain (section 3,
  Registry keys), which ONNX writes as the empty string or as \<open>ai.onnx\<close>.\<close>

definition IsOp :: "Node \<Rightarrow> string \<Rightarrow> bool" where
  "IsOp n op_type \<longleftrightarrow> OpType n = op_type \<and> (Domain n = '''' \<or> Domain n = ''ai.onnx'')"

section \<open>Handlers\<close>

definition EPsWithLayoutSensitiveResize :: "ProviderNames \<Rightarrow> string set" where
  "EPsWithLayoutSensitiveResize K =
     {kCudaExecutionProvider K, kRocmExecutionProvider K, kQnnExecutionProvider K,
      kInternalTestingExecutionProvider K}"

text \<open>
  \<^verbatim>\<open>
  const auto& provider = args.ctx.provider_type;
  if (provider.empty() || layout_sensitive_eps.find(provider) != layout_sensitive_eps.end())
    return false;
  return HandleResize(args);
  \<close>
\<close>

definition EPAwareHandleResize :: "External \<Rightarrow> ProviderNames \<Rightarrow> HandlerArgs \<Rightarrow> bool \<times> Graph" where
  "EPAwareHandleResize X K args =
     (let layout_sensitive_eps = EPsWithLayoutSensitiveResize K;
          provider = provider_type (ctx args)
      in if provider = [] \<or> provider \<in> layout_sensitive_eps
         then (False, graph (ctx args))
         else HandleResize X args)"

definition HandleQLinearPoolOp :: "External \<Rightarrow> HandlerArgs \<Rightarrow> fault + (bool \<times> Graph)" where
  "HandleQLinearPoolOp X args =
     (let g = graph (ctx args) in
      case GetNode g (node args) of
        None \<Rightarrow> Inl InvalidNodeRef
      | Some n \<Rightarrow>
          let channels_last = GetAttributeIntDefault n ''channels_last'' 0;
              rank = length (perm args)
          in if rank < 2 then Inr (False, g)
             else
               (case ChannelLastToFirstPerm rank of
                  Inl e \<Rightarrow> Inl e
                | Inr p \<Rightarrow>
                    if (channels_last = 0 \<and> perm args = p) \<or>
                       (channels_last \<noteq> 0 \<and> perm_inv args = p)
                    then
                      let g1 = SetAttributeInt g (node args) ''channels_last'' (1 - channels_last);
                          g2 = TransposeFirstInput X ((ctx args)\<lparr>graph := g1\<rparr>) (node args)
                                 (perm_inv args);
                          g3 = TransposeOutputs X ((ctx args)\<lparr>graph := g2\<rparr>) (node args)
                                 (perm args)
                      in Inr (True, g3)
                    else Inr (False, g)))"

definition HandleMaxPool :: "External \<Rightarrow> HandlerArgs \<Rightarrow> fault + (bool \<times> Graph)" where
  "HandleMaxPool X args =
     (let g = graph (ctx args) in
      case GetNode g (node args) of
        None \<Rightarrow> Inl InvalidNodeRef
      | Some n \<Rightarrow>
          if ExecutionProviderType n \<noteq> ''CPUExecutionProvider'' then Inr (False, g)
          else
            let outputs = Outputs n in
            if length outputs = 2 \<and> outputs ! 1 \<noteq> '''' then Inr (False, g)
            else if outputs = [] then Inl OutOfRange
            else
              let info = GetValueInfo g (outputs ! 0);
                  dtype = DType info
              in if dtype \<noteq> UINT8 \<and> dtype \<noteq> INT8 then Inr (False, g)
                 else
                   let rank = length (perm args) in
                   (case ChannelLastToFirstPerm rank of
                      Inl e \<Rightarrow> Inl e
                    | Inr p \<Rightarrow>
                        if perm args \<noteq> p then Inr (False, g)
                        else
                          (case SwapNodeOpTypeDomainAndSinceVersion g (node args)
                                  ''NhwcMaxPool'' ''com.microsoft'' 1 of
                             Inl e \<Rightarrow> Inl e
                           | Inr (new_node, g1) \<Rightarrow>
                               let g2 = ClearAttribute g1 new_node ''storage_order'';
                                   g3 = TransposeFirstInput X ((ctx args)\<lparr>graph := g2\<rparr>)
                                          new_node (perm_inv args);
                                   g4 = TransposeOutputs X ((ctx args)\<lparr>graph := g3\<rparr>)
                                          new_node (perm args)
                               in Inr (True, g4))))"

section \<open>Handler registries\<close>

text \<open>
  A \<^verbatim>\<open>HandlerInfo\<close> is a pair of function pointers; the pointers are modelled by the
  names of the functions they point to. A \<^verbatim>\<open>HandlerMap\<close> is an
  \<^verbatim>\<open>unordered_map\<close> from operator key to descriptor: a list of entries with distinct keys,
  where inserting an entry whose key is already present changes nothing.
\<close>

datatype selector_fn = Fn_FirstInput | Fn_QLinearConcatInputs | Fn_QLinearBinaryOpInputs

datatype handler_fn =
    Fn_EPAwareHandleResize | Fn_HandleQLinearConcat | Fn_HandleQLinearBinaryOp
  | Fn_HandleQLinearPoolOp | Fn_HandleMaxPool | Fn_HandleSimpleNode | Fn_HandleReduceOps

record HandlerInfo =
  transposible_inputs_fn :: selector_fn
  handler_fn :: handler_fn

type_synonym HandlerMap = "(string \<times> HandlerInfo) list"

definition HandlerMap_insert :: "(string \<times> HandlerInfo) \<Rightarrow> HandlerMap \<Rightarrow> HandlerMap" where
  "HandlerMap_insert entry m =
     (case map_of m (fst entry) of None \<Rightarrow> m @ [entry] | Some _ \<Rightarrow> m)"

definition HandlerMap_init :: "(string \<times> HandlerInfo) list \<Rightarrow> HandlerMap" where
  "HandlerMap_init entries = fold HandlerMap_insert entries []"

definition HandlerMap_find :: "HandlerMap \<Rightarrow> string \<Rightarrow> HandlerInfo option" where
  "HandlerMap_find m key = map_of m key"

definition ep_aware_resize_handler :: HandlerInfo where
  "ep_aware_resize_handler =
     \<lparr>transposible_inputs_fn = Fn_FirstInput, handler_fn = Fn_EPAwareHandleResize\<rparr>"

definition q_linear_concat_handler :: HandlerInfo where
  "q_linear_concat_handler =
     \<lparr>transposible_inputs_fn = Fn_QLinearConcatInputs, handler_fn = Fn_HandleQLinearConcat\<rparr>"

definition q_linear_binary_op_handler :: HandlerInfo where
  "q_linear_binary_op_handler =
     \<lparr>transposible_inputs_fn = Fn_QLinearBinaryOpInputs, handler_fn = Fn_HandleQLinearBinaryOp\<rparr>"

definition q_linear_pool_op_handler :: HandlerInfo where
  "q_linear_pool_op_handler =
     \<lparr>transposible_inputs_fn = Fn_FirstInput, handler_fn = Fn_HandleQLinearPoolOp\<rparr>"

definition max_pool_op_handler :: HandlerInfo where
  "max_pool_op_handler =
     \<lparr>transposible_inputs_fn = Fn_FirstInput, handler_fn = Fn_HandleMaxPool\<rparr>"

definition node_1_inp_handler :: HandlerInfo where
  "node_1_inp_handler =
     \<lparr>transposible_inputs_fn = Fn_FirstInput, handler_fn = Fn_HandleSimpleNode\<rparr>"

definition reduce_op_handler :: HandlerInfo where
  "reduce_op_handler =
     \<lparr>transposible_inputs_fn = Fn_FirstInput, handler_fn = Fn_HandleReduceOps\<rparr>"

definition OrtHandlers :: HandlerMap where
  "OrtHandlers = HandlerMap_init [(''Resize'', ep_aware_resize_handler)]"

definition OrtExtendedHandlers :: HandlerMap where
  "OrtExtendedHandlers =
     (let map0 = HandlerMap_init
            [(''MaxPool'', max_pool_op_handler),
             (''com.microsoft.QLinearAdd'', q_linear_binary_op_handler),
             (''com.microsoft.QLinearAveragePool'', q_linear_pool_op_handler),
             (''com.microsoft.QLinearConcat'', q_linear_concat_handler),
             (''com.microsoft.QLinearGlobalAveragePool'', q_linear_pool_op_handler),
             (''com.microsoft.QLinearLeakyRelu'', node_1_inp_handler),
             (''com.microsoft.QLinearMul'', q_linear_binary_op_handler),
             (''com.microsoft.QLinearReduceMean'', reduce_op_handler),
             (''com.microsoft.QLinearSigmoid'', node_1_inp_handler)];
          base_handlers = OrtHandlers
      in fold HandlerMap_insert base_handlers map0)"

section \<open>Cost policy\<close>

datatype CostCheckResult = kStop | kPushTranspose | kFallThrough

definition OrtEPCostCheck ::
  "ProviderNames \<Rightarrow> Graph \<Rightarrow> nat \<Rightarrow> perm \<Rightarrow> string set \<Rightarrow> fault + CostCheckResult" where
  "OrtEPCostCheck K g nd pm outputs_leading_to_transpose =
     (case GetNode g nd of
        None \<Rightarrow> Inl InvalidNodeRef
      | Some n \<Rightarrow>
          if ExecutionProviderType n = kCpuExecutionProvider K then
            if IsOp n ''MaxPool'' then Inr kPushTranspose
            else if IsOp n ''Resize'' then
              (if Inputs n = [] then Inl OutOfRange
               else
                 let X_value_info = GetValueInfo g (Inputs n ! 0);
                     X_shape = Shape X_value_info;
                     X_dtype = DType X_value_info;
                     mode = GetAttributeString n ''mode''
                 in if (case X_shape of None \<Rightarrow> False | Some s \<Rightarrow> length s = 4) \<and>
                       (X_dtype = UINT8 \<or> X_dtype = INT8) \<and>
                       (case mode of None \<Rightarrow> False | Some m \<Rightarrow> m = ''linear'')
                    then Inr kPushTranspose
                    else Inr kFallThrough)
            else Inr kFallThrough
          else Inr kFallThrough)"

section \<open>Training module: classification of the training graph inputs\<close>

text \<open>
  An \<^verbatim>\<open>OrtValue\<close> is either unallocated or a handle to a buffer. \<^verbatim>\<open>OrtValueLike\<close> and
  \<^verbatim>\<open>GetParamNameFromGradient\<close> are defined in \<^verbatim>\<open>training_api/utils\<close>, outside the source
  files, and are parameters: the first returns the new value or fails, the second returns
  the parameter name when the input name parses as a gradient name. A member \<^verbatim>\<open>x_\<close> of
  \<^verbatim>\<open>Parameter\<close> is written \<open>p_x\<close> and a member of \<^verbatim>\<open>Module\<close> is written \<open>m_x\<close>,
  since an identifier cannot end with an underscore here.
\<close>

datatype OrtValue = Unallocated | Allocated nat

fun IsAllocated :: "OrtValue \<Rightarrow> bool" where
  "IsAllocated Unallocated = False"
| "IsAllocated (Allocated b) = True"

record Parameter =
  p_name :: string
  p_data :: OrtValue
  p_gradient :: OrtValue
  p_requires_grad :: bool
  p_gradient_name :: string

record TrainingUtils =
  GetParamNameFromGradient :: "string \<Rightarrow> string option"
  OrtValueLike :: "OrtValue \<Rightarrow> OrtValue option"

text \<open>
  \<^verbatim>\<open>
  ORT_ENFORCE(data_.IsAllocated());
  ORT_ENFORCE(requires_grad_);
  gradient_name_ = gradient_name;
  ORT_ENFORCE(OrtValueLike(sess_state, data_, gradient_).IsOK());
  return Status::OK();
  \<close>
\<close>

definition AllocateGrad :: "TrainingUtils \<Rightarrow> Parameter \<Rightarrow> string \<Rightarrow> fault + Parameter" where
  "AllocateGrad U p gradient_name =
     (if \<not> IsAllocated (p_data p) then Inl EnforceFailed
      else if \<not> p_requires_grad p then Inl EnforceFailed
      else
        (case OrtValueLike U (p_data p) of
           None \<Rightarrow> Inl EnforceFailed
         | Some v \<Rightarrow> Inr (p\<lparr>p_gradient_name := gradient_name, p_gradient := v\<rparr>)))"

text \<open>
  The members of \<^verbatim>\<open>Module\<close> written by the constructor's loop, and the loop's three
  local name lists.
\<close>

record Module =
  m_parameters :: "string \<rightharpoonup> Parameter"
  m_train_input_names :: "string list"
  m_weights :: "OrtValue list"
  m_gradients :: "OrtValue list"

record InputNames =
  param_input_names :: "string list"
  grad_input_names :: "string list"
  user_input_names :: "string list"

text \<open>
  One iteration of \<^verbatim>\<open>for (auto input_name : train_input_names_)\<close>:
  \<^verbatim>\<open>
  auto it = parameters_.find(input_name);
  if (it != parameters_.end()) {
    param_input_names.emplace_back(input_name);
    weights_.push_back(it->second->Data());
  } else if (GetParamNameFromGradient(input_name, param_name)) {
    grad_input_names.emplace_back(input_name);
    auto it = parameters_.find(param_name);
    if (it != parameters_.end()) {
      ORT_THROW_IF_ERROR(it->second->AllocateGrad(input_name, train_sess_state));
      gradients_.push_back(it->second->Gradient());
    } else {
      // raise error here.
    }
  } else {
    user_input_names.emplace_back(input_name);
  }
  \<close>
\<close>

definition classify_input ::
  "TrainingUtils \<Rightarrow> string \<Rightarrow> Module \<times> InputNames \<Rightarrow> fault + (Module \<times> InputNames)" where
  "classify_input U input_name st =
     (let m = fst st; l = snd st in
      case m_parameters m input_name of
        Some p \<Rightarrow>
          Inr (m\<lparr>m_weights := m_weights m @ [p_data p]\<rparr>,
               l\<lparr>param_input_names := param_input_names l @ [input_name]\<rparr>)
      | None \<Rightarrow>
          (case GetParamNameFromGradient U input_name of
             Some param_name \<Rightarrow>
               let l1 = l\<lparr>grad_input_names := grad_input_names l @ [input_name]\<rparr> in
               (case m_parameters m param_name of
                  Some p \<Rightarrow>
                    (case AllocateGrad U p input_name of
                       Inl e \<Rightarrow> Inl e
                     | Inr p' \<Rightarrow>
                         Inr (m\<lparr>m_parameters := (m_parameters m)(param_name \<mapsto> p'),
                                m_gradients := m_gradients m @ [p_gradient p']\<rparr>, l1))
                | None \<Rightarrow> Inr (m, l1))
           | None \<Rightarrow>
               Inr (m, l\<lparr>user_input_names := user_input_names l @ [input_name]\<rparr>)))"

fun classify_inputs ::
  "TrainingUtils \<Rightarrow> string list \<Rightarrow> Module \<times> InputNames \<Rightarrow> fault + (Module \<times> InputNames)" where
  "classify_inputs U [] st = Inr st"
| "classify_inputs U (input_name # rest) st =
     (case classify_input U input_name st of
        Inl e \<Rightarrow> Inl e
      | Inr st' \<Rightarrow> classify_inputs U rest st')"

text \<open>
  The part of the constructor after the sessions are loaded: \<open>graph_input_names\<close> is what
  \<^verbatim>\<open>GetGraphInputOutputNames\<close> stored in \<^verbatim>\<open>train_input_names_\<close>. After the loop,
  \<^verbatim>\<open>train_input_names_\<close> is the user names, then the parameter names, then the gradient
  names.
\<close>

definition Module_ctor ::
  "TrainingUtils \<Rightarrow> (string \<rightharpoonup> Parameter) \<Rightarrow> string list \<Rightarrow> fault + Module" where
  "Module_ctor U parameters graph_input_names =
     (case classify_inputs U graph_input_names
             (\<lparr>m_parameters = parameters, m_train_input_names = graph_input_names,
               m_weights = [], m_gradients = []\<rparr>,
              \<lparr>param_input_names = [], grad_input_names = [], user_input_names = []\<rparr>) of
        Inl e \<Rightarrow> Inl e
      | Inr (m, l) \<Rightarrow>
          Inr (m\<lparr>m_train_input_names :=
                   user_input_names l @ param_input_names l @ grad_input_names l\<rparr>))"

text \<open>
  \<^verbatim>\<open>Module::TrainStep\<close> feeds the user inputs, then the weights, then the gradients, then
  the reset flag, under the names \<^verbatim>\<open>train_input_names_\<close>.
\<close>

definition TrainStep_feeds :: "Module \<Rightarrow> OrtValue list \<Rightarrow> OrtValue \<Rightarrow> OrtValue list" where
  "TrainStep_feeds m inputs reset_grad_input =
     inputs @ m_weights m @ m_gradients m @ [reset_grad_input]"

section \<open>Auxiliary notions for the proofs\<close>

text \<open>
  The graph after \<open>k\<close> iterations of the loop of \<^verbatim>\<open>SwapNodeImpl\<close>, started in graph
  \<open>g\<close> where the old node is \<open>n\<close> with outputs \<open>outs\<close> and the fresh copy is \<open>c\<close>: the
  first \<open>k\<close> slots have moved to the copy.
\<close>

definition moved :: "Graph \<Rightarrow> nat \<Rightarrow> nat \<Rightarrow> Node \<Rightarrow> Node \<Rightarrow> string list \<Rightarrow> nat \<Rightarrow> Graph" where
  "moved g nd new_node n c outs k =
     g\<lparr>nodes := (nodes g)
         [new_node := Some (c\<lparr>Outputs := take k outs @ replicate (length outs - k) ''''\<rparr>),
          nd := Some (n\<lparr>Outputs := replicate k '''' @ drop k outs\<rparr>)]\<rparr>"

text \<open>
  An input name of the training graph that is not a parameter name and parses as the
  gradient name of a parameter that the parameter table does not hold.
\<close>

definition missing_parameter :: "TrainingUtils \<Rightarrow> (string \<rightharpoonup> Parameter) \<Rightarrow> string \<Rightarrow> bool" where
  "missing_parameter U P input_name \<longleftrightarrow>
     P input_name = None \<and>
     (case GetParamNameFromGradient U input_name of
        None \<Rightarrow> False
      | Some param_name \<Rightarrow> P param_name = None)"

section \<open>Example inputs\<close>

definition ex_names :: ProviderNames where
  "ex_names = \<lparr>kCpuExecutionProvider = ''CPUExecutionProvider'',
               kCudaExecutionProvider = ''CUDAExecutionProvider'',
               kRocmExecutionProvider = ''ROCMExecutionProvider'',
               kQnnExecutionProvider = ''QNNExecutionProvider'',
               kInternalTestingExecutionProvider = ''InternalTestingExecutionProvider''\<rparr>"

text \<open>Stand-ins for the external collaborators: a generic Resize handler that always
  pushes, and rewrite helpers that leave the graph as it is.\<close>

definition ex_external :: External where
  "ex_external = \<lparr>HandleResize = (\<lambda>a. (True, graph (ctx a))),
                  TransposeFirstInput = (\<lambda>c i p. graph c),
                  TransposeOutputs = (\<lambda>c i p. graph c)\<rparr>"

definition ex_value_info :: "string \<Rightarrow> ValueInfo" where
  "ex_value_info name =
     (if name = ''X'' \<or> name = ''Y''
      then \<lparr>Shape = Some [1, 3, 8, 8], DType = UINT8\<rparr>
      else \<lparr>Shape = None, DType = UNDEFINED\<rparr>)"

text \<open>A node with outputs \<open>[A, "", C]\<close> and a consumer of \<open>A\<close>.\<close>

definition ex_producer :: Node where
  "ex_producer = \<lparr>OpType = ''Split'', Domain = '''', SinceVersion = 13,
                  Inputs = [''X''], Outputs = [''A'', '''', ''C''],
                  Attributes = [''axis'' \<mapsto> AttrInt 1],
                  ExecutionProviderType = ''CPUExecutionProvider''\<rparr>"

definition ex_consumer :: Node where
  "ex_consumer = \<lparr>OpType = ''Relu'', Domain = '''', SinceVersion = 14,
                  Inputs = [''A''], Outputs = [''Z''],
                  Attributes = Map.empty,
                  ExecutionProviderType = ''CPUExecutionProvider''\<rparr>"

definition ex_swap_graph :: Graph where
  "ex_swap_graph = \<lparr>nodes = [Some ex_producer, Some ex_consumer], value_info = ex_value_info\<rparr>"

definition ex_maxpool :: Node where
  "ex_maxpool = \<lparr>OpType = ''MaxPool'', Domain = '''', SinceVersion = 12,
                 Inputs = [''X''], Outputs = [''Y''],
                 Attributes = [''storage_order'' \<mapsto> AttrInt 0,
                               ''kernel_shape'' \<mapsto> AttrInts [2, 2]],
                 ExecutionProviderType = ''CPUExecutionProvider''\<rparr>"

definition ex_qpool :: Node where
  "ex_qpool = \<lparr>OpType = ''QLinearAveragePool'', Domain = ''com.microsoft'', SinceVersion = 1,
               Inputs = [''X'', ''x_scale'', ''x_zp'', ''y_scale'', ''y_zp''], Outputs = [''Y''],
               Attributes = [''kernel_shape'' \<mapsto> AttrInts [2, 2]],
               ExecutionProviderType = ''CPUExecutionProvider''\<rparr>"

definition ex_resize :: Node where
  "ex_resize = \<lparr>OpType = ''Resize'', Domain = '''', SinceVersion = 13,
                Inputs = [''X'', '''', ''scales''], Outputs = [''Y''],
                Attributes = [''mode'' \<mapsto> AttrString ''linear''],
                ExecutionProviderType = ''CPUExecutionProvider''\<rparr>"

definition ex_graph :: "Node \<Rightarrow> Graph" where
  "ex_graph n = \<lparr>nodes = [Some n], value_info = ex_value_info\<rparr>"

text \<open>Handler arguments for the only node of \<open>ex_graph n\<close>, under an optimizer context
  with provider type \<open>ep\<close>.\<close>

definition ex_args :: "Node \<Rightarrow> string \<Rightarrow> perm \<Rightarrow> perm \<Rightarrow> HandlerArgs" where
  "ex_args n ep p q =
     \<lparr>ctx = \<lparr>graph = ex_graph n, provider_type = ep\<rparr>, node = 0, perm = p, perm_inv = q\<rparr>"

definition ex_utils :: TrainingUtils where
  "ex_utils = \<lparr>GetParamNameFromGradient =
                  (\<lambda>s. if s = ''w_grad'' then Some ''w''
                        else if s = ''v_grad'' then Some ''v'' else None),
               OrtValueLike = (\<lambda>v. Some (Allocated 7))\<rparr>"

definition ex_parameters :: "string \<rightharpoonup> Parameter" where
  "ex_parameters =
     [''w'' \<mapsto> \<lparr>p_name = ''w'', p_data = Allocated 1, p_gradient = Unallocated,
                 p_requires_grad = True, p_gradient_name = ''''\<rparr>]"

section \<open>Properties of the graph operations\<close>

lemma GetNode_update_node:
  "GetNode (update_node g i f) k = (if k = i then map_option f (GetNode g i) else GetNode g k)"
  by (auto simp: GetNode_def update_node_def)

lemma GetNode_live: "GetNode g i = Some n \<Longrightarrow> i < length (nodes g)"
  by (simp add: GetNode_def split: if_splits)

lemma slots_fill_step:
  "k < length outs \<Longrightarrow>
   (take k outs @ replicate (length outs - k) '''')[k := outs ! k] =
   take (Suc k) outs @ replicate (length outs - Suc k) ''''"
  by (rule nth_equalityI) (auto simp: nth_append nth_list_update less_Suc_eq)

lemma slots_clear_step:
  "k < length outs \<Longrightarrow>
   (replicate k '''' @ drop k outs)[k := ''''] = replicate (Suc k) '''' @ drop (Suc k) outs"
  by (rule nth_equalityI)
     (auto simp: nth_append nth_list_update less_Suc_eq simp del: replicate_Suc)

lemma slots_fill_skip:
  "k < length outs \<Longrightarrow> outs ! k = '''' \<Longrightarrow>
   take k outs @ replicate (length outs - k) '''' =
   take (Suc k) outs @ replicate (length outs - Suc k) ''''"
  by (rule nth_equalityI) (auto simp: nth_append less_Suc_eq)

lemma slots_clear_skip:
  "k < length outs \<Longrightarrow> outs ! k = '''' \<Longrightarrow>
   replicate k '''' @ drop k outs = replicate (Suc k) '''' @ drop (Suc k) outs"
  by (rule nth_equalityI) (auto simp: nth_append less_Suc_eq simp del: replicate_Suc)

lemma MoveOutput_moved:
  assumes "nd \<noteq> new_node" "nd < length (nodes g)" "new_node < length (nodes g)"
    and "k < length outs"
  shows "MoveOutput (moved g nd new_node n c outs k) nd k new_node k =
         moved g nd new_node n c outs (Suc k)"
  using assms
  apply (simp add: MoveOutput_def moved_def GetNode_def update_node_def)
  apply (simp add: slots_fill_step slots_clear_step nth_append list_update_swap)
  done

lemma moved_skip:
  assumes "k < length outs" "outs ! k = ''''"
  shows "moved g nd new_node n c outs k = moved g nd new_node n c outs (Suc k)"
  using assms slots_fill_skip [of k outs] slots_clear_skip [of k outs]
  by (simp add: moved_def)

lemma fold_move_outputs:
  assumes "nd \<noteq> new_node" "nd < length (nodes g)" "new_node < length (nodes g)"
    and "k \<le> length outs"
  shows "fold (\<lambda>j g. if outs ! j \<noteq> '''' then MoveOutput g nd j new_node j else g) [0..<k]
           (moved g nd new_node n c outs 0) = moved g nd new_node n c outs k"
  using assms(4)
proof (induction k)
  case 0
  show ?case by simp
next
  case (Suc k)
  then have k: "k < length outs" by simp
  show ?case
    using Suc assms(1-3) k MoveOutput_moved [OF assms(1-3) k, of n c]
      moved_skip [OF k, of g nd new_node n c]
    by (cases "outs ! k = ''''") simp_all
qed

lemma moved_0:
  assumes "GetNode g nd = Some n" "GetNode g new_node = Some c"
    and "Outputs c = replicate (length outs) ''''" "Outputs n = outs"
  shows "moved g nd new_node n c outs 0 = g"
proof -
  have c: "c\<lparr>Outputs := replicate (length outs) ''''\<rparr> = c"
    using assms(3) by simp
  have n: "n\<lparr>Outputs := outs\<rparr> = n"
    using assms(4) by simp
  have "(nodes g)[new_node := Some c] = nodes g"
    using assms(2) by (metis GetNode_def list_update_id option.distinct(1))
  moreover have "(nodes g)[nd := Some n] = nodes g"
    using assms(1) by (metis GetNode_def list_update_id option.distinct(1))
  ultimately show ?thesis
    by (simp add: moved_def c n)
qed

text \<open>Closed form of the replacement: the old entry is emptied and the new node, which is
  the old one under its new identity, is appended.\<close>

lemma SwapNodeImpl_eq:
  assumes "GetNode g nd = Some n"
  shows "SwapNodeImpl g nd op_type domain since_version =
         Inr (length (nodes g),
              g\<lparr>nodes := (nodes g)[nd := None] @
                 [Some (n\<lparr>OpType := op_type, Domain := domain,
                          SinceVersion := (case since_version of
                                             None \<Rightarrow> SinceVersion n | Some v \<Rightarrow> v)\<rparr>)]\<rparr>)"
proof -
  define new_node where "new_node = length (nodes g)"
  define c where "c = n\<lparr>OpType := op_type, Domain := domain,
      SinceVersion := (case since_version of None \<Rightarrow> SinceVersion n | Some v \<Rightarrow> v),
      Outputs := replicate (length (Outputs n)) ''''\<rparr>"
  define g1 where "g1 = g\<lparr>nodes := nodes g @ [Some c]\<rparr>"
  have lt: "nd < length (nodes g)"
    using assms by (rule GetNode_live)
  have copy: "CopyNode g nd op_type domain since_version = Inr (new_node, g1)"
    using assms by (simp add: CopyNode_def new_node_def g1_def c_def)
  have ne: "nd \<noteq> new_node"
    using lt by (simp add: new_node_def)
  have n1: "GetNode g1 nd = Some n"
    using assms lt by (simp add: GetNode_def g1_def nth_append split: if_splits)
  have c1: "GetNode g1 new_node = Some c"
    by (simp add: GetNode_def g1_def new_node_def)
  have lt1: "nd < length (nodes g1)" "new_node < length (nodes g1)"
    using lt by (simp_all add: g1_def new_node_def)
  have start: "moved g1 nd new_node n c (Outputs n) 0 = g1"
    by (rule moved_0 [OF n1 c1]) (simp_all add: c_def)
  have "move_outputs (Outputs n) nd new_node g1 =
        moved g1 nd new_node n c (Outputs n) (length (Outputs n))"
    using fold_move_outputs [OF ne lt1, of "length (Outputs n)" "Outputs n" n c]
    by (simp add: move_outputs_def start)
  then have "RemoveNode (move_outputs (Outputs n) nd new_node g1) nd =
        g\<lparr>nodes := (nodes g)[nd := None] @ [Some (c\<lparr>Outputs := Outputs n\<rparr>)]\<rparr>"
    using lt by (simp add: RemoveNode_def moved_def g1_def new_node_def list_update_append)
  moreover have "c\<lparr>Outputs := Outputs n\<rparr> = n\<lparr>OpType := op_type, Domain := domain,
      SinceVersion := (case since_version of None \<Rightarrow> SinceVersion n | Some v \<Rightarrow> v)\<rparr>"
    by (simp add: c_def)
  ultimately show ?thesis
    using assms copy by (simp add: SwapNodeImpl_def new_node_def)
qed

section \<open>Node replacement (C1)\<close>

text \<open>
  C1. For a live node \<open>n\<close>, the replacement routine succeeds and returns a fresh node.
  Both public entry points are the internal routine with an absent, respectively a given,
  version. The new node has the new operator type and domain (and the given version, or
  the old one), and the inputs and attributes of the old node. Every non-empty output
  slot \<open>j\<close> of the old node is now output slot \<open>j\<close> of the new node, so a consumer of
  that value name reads the new node's slot \<open>j\<close>; an empty slot stays empty. The old node
  is no longer in the graph, and every other node and the value table are untouched.
\<close>

theorem SwapNodeImpl_replaces_node:
  assumes "GetNode g nd = Some n"
  shows "\<exists>g' n'.
       SwapNodeImpl g nd op_type domain since_version = Inr (length (nodes g), g')
     \<and> SwapNodeOpTypeAndDomain g nd op_type domain = SwapNodeImpl g nd op_type domain None
     \<and> SwapNodeOpTypeDomainAndSinceVersion g nd op_type domain v =
         SwapNodeImpl g nd op_type domain (Some v)
     \<and> GetNode g (length (nodes g)) = None
     \<and> GetNode g' (length (nodes g)) = Some n'
     \<and> OpType n' = op_type \<and> Domain n' = domain
     \<and> SinceVersion n' = (case since_version of None \<Rightarrow> SinceVersion n | Some v \<Rightarrow> v)
     \<and> Inputs n' = Inputs n \<and> Attributes n' = Attributes n
     \<and> length (Outputs n') = length (Outputs n)
     \<and> (\<forall>j < length (Outputs n). Outputs n ! j \<noteq> '''' \<longrightarrow> Outputs n' ! j = Outputs n ! j)
     \<and> (\<forall>j < length (Outputs n). Outputs n ! j = '''' \<longrightarrow> Outputs n' ! j = '''')
     \<and> GetNode g' nd = None
     \<and> (\<forall>k. k \<noteq> nd \<and> k \<noteq> length (nodes g) \<longrightarrow> GetNode g' k = GetNode g k)
     \<and> value_info g' = value_info g"
proof -
  have lt: "nd < length (nodes g)"
    using assms by (rule GetNode_live)
  show ?thesis
    using lt
    by (simp add: SwapNodeImpl_eq [OF assms] SwapNodeOpTypeAndDomain_def
        SwapNodeOpTypeDomainAndSinceVersion_def GetNode_def nth_append)
qed

theorem SwapNodeImpl_replaces_node_witness:
  "GetNode ex_swap_graph 0 = Some ex_producer
   \<and> Outputs ex_producer = [''A'', '''', ''C'']
   \<and> GetNode ex_swap_graph 1 = Some ex_consumer
   \<and> Inputs ex_consumer = [''A'']
   \<and> (\<exists>g' n'.
         SwapNodeImpl ex_swap_graph 0 ''NewOp'' ''com.microsoft'' None = Inr (2, g')
       \<and> GetNode g' 2 = Some n'
       \<and> OpType n' = ''NewOp'' \<and> Domain n' = ''com.microsoft'' \<and> SinceVersion n' = 13
       \<and> Inputs n' = [''X''] \<and> Attributes n' = Attributes ex_producer
       \<and> Outputs n' ! 0 = ''A'' \<and> Outputs n' ! 1 = '''' \<and> Outputs n' ! 2 = ''C''
       \<and> GetNode g' 0 = None
       \<and> GetNode g' 1 = Some ex_consumer)"
proof -
  have live: "GetNode ex_swap_graph 0 = Some ex_producer"
    by (simp add: GetNode_def ex_swap_graph_def)
  have len: "length (nodes ex_swap_graph) = 2"
    by (simp add: ex_swap_graph_def)
  have outs: "Outputs ex_producer = [''A'', '''', ''C'']"
    by (simp add: ex_producer_def)
  have cons: "GetNode ex_swap_graph 1 = Some ex_consumer"
    by (simp add: GetNode_def ex_swap_graph_def)
  obtain g' n' where
    r: "SwapNodeImpl ex_swap_graph 0 ''NewOp'' ''com.microsoft'' None = Inr (2, g')"
    and n': "GetNode g' 2 = Some n'" "OpType n' = ''NewOp''" "Domain n' = ''com.microsoft''"
      "SinceVersion n' = SinceVersion ex_producer"
      "Inputs n' = Inputs ex_producer" "Attributes n' = Attributes ex_producer"
    and used: "\<forall>j < 3. [''A'', '''', ''C''] ! j \<noteq> '''' \<longrightarrow> Outputs n' ! j = [''A'', '''', ''C''] ! j"
    and unused: "\<forall>j < 3. [''A'', '''', ''C''] ! j = '''' \<longrightarrow> Outputs n' ! j = ''''"
    and gone: "GetNode g' 0 = None"
    and others: "\<forall>k. k \<noteq> 0 \<and> k \<noteq> 2 \<longrightarrow> GetNode g' k = GetNode ex_swap_graph k"
    using SwapNodeImpl_replaces_node [OF live, of "''NewOp''" "''com.microsoft''" None 1]
    unfolding len outs by (auto simp del: All_less_Suc)
  have o0: "Outputs n' ! 0 = ''A''"
    using used by (auto dest: spec [of _ 0])
  have o1: "Outputs n' ! 1 = ''''"
    using unused by (auto dest: spec [of _ 1])
  have o2: "Outputs n' ! 2 = ''C''"
    using used by (auto dest: spec [of _ 2])
  have c1: "GetNode g' 1 = Some ex_consumer"
    using others cons by (auto dest: spec [of _ 1])
  show ?thesis
    using live outs cons r n' o0 o1 o2 gone c1
    by (simp add: ex_consumer_def ex_producer_def)
qed

section \<open>MaxPool handler (C2, C3, C9)\<close>

lemma ChannelLastToFirstPerm_defined:
  "2 \<le> rank \<Longrightarrow>
   ChannelLastToFirstPerm rank = Inr (0 # of_nat (rank - 1) # map of_nat [1..<rank - 1])"
  by (simp add: ChannelLastToFirstPerm_def)

lemma ChannelLastToFirstPerm_4: "ChannelLastToFirstPerm 4 = Inr [0, 3, 1, 2]"
  by (simp add: ChannelLastToFirstPerm_def upt_rec)

lemma ChannelLastToFirstPerm_rank4:
  "ChannelLastToFirstPerm (Suc (Suc (Suc (Suc 0)))) = Inr [0, 3, 1, 2]"
  by (simp add: ChannelLastToFirstPerm_def upt_rec)

lemma GetNode_ex_graph: "GetNode (ex_graph n) 0 = Some n"
  by (simp add: GetNode_def ex_graph_def)

lemma GetNode_ClearAttribute_appended:
  "GetNode (ClearAttribute (g\<lparr>nodes := ns @ [Some m]\<rparr>) (length ns) a) k =
     (if k = length ns then Some (m\<lparr>Attributes := (Attributes m)(a := None)\<rparr>)
      else if k < length ns then ns ! k else None)"
  by (simp add: ClearAttribute_def GetNode_update_node) (simp add: GetNode_def nth_append)

text \<open>
  C2. For a live node with its first output, the handler returns false and leaves the
  graph as it found it whenever the node's provider is not the CPU provider, or the node
  has two outputs and the second one is used, or the element type of the first output is
  neither UINT8 nor INT8, or the pushed permutation differs from the canonical permutation
  for its length. (A MaxPool node has one or two outputs; the canonical permutation
  exists for lengths from 2 on.)
\<close>

theorem HandleMaxPool_rejects:
  assumes "GetNode (graph (ctx args)) (node args) = Some n"
    and "Outputs n \<noteq> []"
    and "ExecutionProviderType n \<noteq> ''CPUExecutionProvider''
       \<or> (length (Outputs n) = 2 \<and> Outputs n ! 1 \<noteq> '''')
       \<or> (DType (GetValueInfo (graph (ctx args)) (Outputs n ! 0)) \<noteq> UINT8
          \<and> DType (GetValueInfo (graph (ctx args)) (Outputs n ! 0)) \<noteq> INT8)
       \<or> (\<exists>p. ChannelLastToFirstPerm (length (perm args)) = Inr p \<and> perm args \<noteq> p)"
  shows "HandleMaxPool X args = Inr (False, graph (ctx args))"
  using assms
  by (auto simp: HandleMaxPool_def Let_def split: sum.splits)

theorem HandleMaxPool_rejects_witness:
  "HandleMaxPool ex_external (ex_args ex_maxpool '''' [0, 1, 2, 3] [0, 1, 2, 3]) =
     Inr (False, ex_graph ex_maxpool)
   \<and> ChannelLastToFirstPerm 4 = Inr [0, 3, 1, 2]
   \<and> HandleMaxPool ex_external
       (ex_args (ex_maxpool\<lparr>ExecutionProviderType := ''CUDAExecutionProvider''\<rparr>) ''''
          [0, 3, 1, 2] [0, 2, 3, 1]) =
     Inr (False, ex_graph (ex_maxpool\<lparr>ExecutionProviderType := ''CUDAExecutionProvider''\<rparr>))
   \<and> HandleMaxPool ex_external
       (ex_args (ex_maxpool\<lparr>Outputs := [''Y'', ''I'']\<rparr>) '''' [0, 3, 1, 2] [0, 2, 3, 1]) =
     Inr (False, ex_graph (ex_maxpool\<lparr>Outputs := [''Y'', ''I'']\<rparr>))
   \<and> HandleMaxPool ex_external
       (ex_args (ex_maxpool\<lparr>Outputs := [''F'']\<rparr>) '''' [0, 3, 1, 2] [0, 2, 3, 1]) =
     Inr (False, ex_graph (ex_maxpool\<lparr>Outputs := [''F'']\<rparr>))"
proof -
  let ?A1 = "ex_args ex_maxpool '''' [0, 1, 2, 3] [0, 1, 2, 3]"
  let ?N2 = "ex_maxpool\<lparr>ExecutionProviderType := ''CUDAExecutionProvider''\<rparr>"
  let ?N3 = "ex_maxpool\<lparr>Outputs := [''Y'', ''I'']\<rparr>"
  let ?N4 = "ex_maxpool\<lparr>Outputs := [''F'']\<rparr>"
  let ?A = "\<lambda>n. ex_args n '''' [0, 3, 1, 2] [0, 2, 3, 1]"
  have live: "\<And>n p q. GetNode (graph (ctx (ex_args n '''' p q))) (node (ex_args n '''' p q)) = Some n"
    by (simp add: ex_args_def GetNode_ex_graph)
  have g: "\<And>n p q. graph (ctx (ex_args n '''' p q)) = ex_graph n"
    by (simp add: ex_args_def)
  have "HandleMaxPool ex_external ?A1 = Inr (False, graph (ctx ?A1))"
  proof (rule HandleMaxPool_rejects [OF live])
    show "Outputs ex_maxpool \<noteq> []"
      by (simp add: ex_maxpool_def)
    have "\<exists>p. ChannelLastToFirstPerm (length (perm ?A1)) = Inr p \<and> perm ?A1 \<noteq> p"
      by (simp add: ex_args_def ChannelLastToFirstPerm_def upt_rec)
    then show "ExecutionProviderType ex_maxpool \<noteq> ''CPUExecutionProvider''
       \<or> (length (Outputs ex_maxpool) = 2 \<and> Outputs ex_maxpool ! 1 \<noteq> '''')
       \<or> (DType (GetValueInfo (graph (ctx ?A1)) (Outputs ex_maxpool ! 0)) \<noteq> UINT8
          \<and> DType (GetValueInfo (graph (ctx ?A1)) (Outputs ex_maxpool ! 0)) \<noteq> INT8)
       \<or> (\<exists>p. ChannelLastToFirstPerm (length (perm ?A1)) = Inr p \<and> perm ?A1 \<noteq> p)"
      by (intro disjI2)
  qed
  moreover have "HandleMaxPool ex_external (?A ?N2) = Inr (False, graph (ctx (?A ?N2)))"
  proof (rule HandleMaxPool_rejects [OF live])
    show "Outputs ?N2 \<noteq> []"
      by (simp add: ex_maxpool_def)
    have "ExecutionProviderType ?N2 \<noteq> ''CPUExecutionProvider''"
      by simp
    then show "ExecutionProviderType ?N2 \<noteq> ''CPUExecutionProvider''
       \<or> (length (Outputs ?N2) = 2 \<and> Outputs ?N2 ! 1 \<noteq> '''')
       \<or> (DType (GetValueInfo (graph (ctx (?A ?N2))) (Outputs ?N2 ! 0)) \<noteq> UINT8
          \<and> DType (GetValueInfo (graph (ctx (?A ?N2))) (Outputs ?N2 ! 0)) \<noteq> INT8)
       \<or> (\<exists>p. ChannelLastToFirstPerm (length (perm (?A ?N2))) = Inr p \<and> perm (?A ?N2) \<noteq> p)"
      by (rule disjI1)
  qed
  moreover have "HandleMaxPool ex_external (?A ?N3) = Inr (False, graph (ctx (?A ?N3)))"
  proof (rule HandleMaxPool_rejects [OF live])
    show "Outputs ?N3 \<noteq> []"
      by simp
    have "length (Outputs ?N3) = 2 \<and> Outputs ?N3 ! 1 \<noteq> ''''"
      by simp
    then show "ExecutionProviderType ?N3 \<noteq> ''CPUExecutionProvider''
       \<or> (length (Outputs ?N3) = 2 \<and> Outputs ?N3 ! 1 \<noteq> '''')
       \<or> (DType (GetValueInfo (graph (ctx (?A ?N3))) (Outputs ?N3 ! 0)) \<noteq> UINT8
          \<and> DType (GetValueInfo (graph (ctx (?A ?N3))) (Outputs ?N3 ! 0)) \<noteq> INT8)
       \<or> (\<exists>p. ChannelLastToFirstPerm (length (perm (?A ?N3))) = Inr p \<and> perm (?A ?N3) \<noteq> p)"
      by (intro disjI2 disjI1)
  qed
  moreover have "HandleMaxPool ex_external (?A ?N4) = Inr (False, graph (ctx (?A ?N4)))"
  proof (rule HandleMaxPool_rejects [OF live])
    show "Outputs ?N4 \<noteq> []"
      by simp
    have "DType (GetValueInfo (graph (ctx (?A ?N4))) (Outputs ?N4 ! 0)) \<noteq> UINT8
          \<and> DType (GetValueInfo (graph (ctx (?A ?N4))) (Outputs ?N4 ! 0)) \<noteq> INT8"
      by (simp add: g GetValueInfo_def ex_graph_def ex_value_info_def)
    then show "ExecutionProviderType ?N4 \<noteq> ''CPUExecutionProvider''
       \<or> (length (Outputs ?N4) = 2 \<and> Outputs ?N4 ! 1 \<noteq> '''')
       \<or> (DType (GetValueInfo (graph (ctx (?A ?N4))) (Outputs ?N4 ! 0)) \<noteq> UINT8
          \<and> DType (GetValueInfo (graph (ctx (?A ?N4))) (Outputs ?N4 ! 0)) \<noteq> INT8)
       \<or> (\<exists>p. ChannelLastToFirstPerm (length (perm (?A ?N4))) = Inr p \<and> perm (?A ?N4) \<noteq> p)"
      by (intro disjI2 disjI1)
  qed
  ultimately show ?thesis
    by (simp add: g ChannelLastToFirstPerm_4)
qed

text \<open>
  C3. Whenever the handler returns true, the node was replaced through
  \<^verbatim>\<open>SwapNodeOpTypeDomainAndSinceVersion\<close> by a node of type \<open>NhwcMaxPool\<close> in domain
  \<open>com.microsoft\<close> at version 1, the attribute \<open>storage_order\<close> was cleared on the new
  node, and the resulting graph is the one left by transposing the new node's first input
  with the inverse permutation and then all its outputs with the pushed permutation.
\<close>

theorem HandleMaxPool_rewrite:
  assumes "HandleMaxPool X args = Inr (True, g')"
  shows "\<exists>n gs g1 n'.
       GetNode (graph (ctx args)) (node args) = Some n
     \<and> SwapNodeOpTypeDomainAndSinceVersion (graph (ctx args)) (node args)
         ''NhwcMaxPool'' ''com.microsoft'' 1 = Inr (length (nodes (graph (ctx args))), gs)
     \<and> g1 = ClearAttribute gs (length (nodes (graph (ctx args)))) ''storage_order''
     \<and> g' = TransposeOutputs X
              ((ctx args)\<lparr>graph :=
                 TransposeFirstInput X ((ctx args)\<lparr>graph := g1\<rparr>)
                   (length (nodes (graph (ctx args)))) (perm_inv args)\<rparr>)
              (length (nodes (graph (ctx args)))) (perm args)
     \<and> GetNode g1 (length (nodes (graph (ctx args)))) = Some n'
     \<and> OpType n' = ''NhwcMaxPool'' \<and> Domain n' = ''com.microsoft'' \<and> SinceVersion n' = 1
     \<and> Attributes n' = (Attributes n)(''storage_order'' := None)
     \<and> Inputs n' = Inputs n \<and> Outputs n' = Outputs n
     \<and> GetNode g1 (node args) = None"
proof -
  obtain n where n: "GetNode (graph (ctx args)) (node args) = Some n"
    using assms by (cases "GetNode (graph (ctx args)) (node args)")
      (auto simp: HandleMaxPool_def Let_def)
  have lt: "node args < length (nodes (graph (ctx args)))"
    using n by (rule GetNode_live)
  note swap = SwapNodeImpl_eq [OF n, of "''NhwcMaxPool''" "''com.microsoft''" "Some 1"]
  have g': "g' = TransposeOutputs X
              ((ctx args)\<lparr>graph :=
                 TransposeFirstInput X
                   ((ctx args)\<lparr>graph :=
                      ClearAttribute
                        ((graph (ctx args))\<lparr>nodes :=
                           (nodes (graph (ctx args)))[node args := None] @
                           [Some (n\<lparr>OpType := ''NhwcMaxPool'', Domain := ''com.microsoft'',
                                   SinceVersion := 1\<rparr>)]\<rparr>)
                        (length (nodes (graph (ctx args)))) ''storage_order''\<rparr>)
                   (length (nodes (graph (ctx args)))) (perm_inv args)\<rparr>)
              (length (nodes (graph (ctx args)))) (perm args)"
    using assms n
    by (auto simp: HandleMaxPool_def Let_def SwapNodeOpTypeDomainAndSinceVersion_def swap
        split: sum.splits if_splits)
  have len: "length ((nodes (graph (ctx args)))[node args := None]) =
             length (nodes (graph (ctx args)))"
    by simp
  show ?thesis
    using n g' lt
      GetNode_ClearAttribute_appended
        [where g = "graph (ctx args)" and ns = "(nodes (graph (ctx args)))[node args := None]"
           and a = "''storage_order''"]
    unfolding len
    by (simp add: SwapNodeOpTypeDomainAndSinceVersion_def swap)
qed

theorem HandleMaxPool_rewrite_witness:
  "\<exists>g' n'.
       HandleMaxPool ex_external (ex_args ex_maxpool '''' [0, 3, 1, 2] [0, 2, 3, 1]) = Inr (True, g')
     \<and> GetNode g' 1 = Some n'
     \<and> OpType n' = ''NhwcMaxPool'' \<and> Domain n' = ''com.microsoft'' \<and> SinceVersion n' = 1
     \<and> Attributes n' ''storage_order'' = None
     \<and> Attributes n' ''kernel_shape'' = Some (AttrInts [2, 2])
     \<and> Inputs n' = [''X''] \<and> Outputs n' = [''Y'']
     \<and> GetNode g' 0 = None"
proof -
  let ?args = "ex_args ex_maxpool '''' [0, 3, 1, 2] [0, 2, 3, 1]"
  have swap: "SwapNodeOpTypeDomainAndSinceVersion (ex_graph ex_maxpool) 0
                ''NhwcMaxPool'' ''com.microsoft'' 1 =
              Inr (1, (ex_graph ex_maxpool)\<lparr>nodes := [None,
                 Some (ex_maxpool\<lparr>OpType := ''NhwcMaxPool'', Domain := ''com.microsoft'',
                                  SinceVersion := 1\<rparr>)]\<rparr>)"
    using SwapNodeImpl_eq [OF GetNode_ex_graph, of ex_maxpool "''NhwcMaxPool''"
        "''com.microsoft''" "Some 1"]
    by (simp add: SwapNodeOpTypeDomainAndSinceVersion_def) (simp add: ex_graph_def)
  have fires: "\<exists>g'. HandleMaxPool ex_external ?args = Inr (True, g')"
    by (simp add: HandleMaxPool_def Let_def ex_args_def GetNode_ex_graph
        ChannelLastToFirstPerm_rank4 swap)
       (simp add: ex_maxpool_def GetValueInfo_def ex_graph_def ex_value_info_def)
  then obtain g' where r: "HandleMaxPool ex_external ?args = Inr (True, g')" ..
  have stubs: "\<And>c i p. TransposeOutputs ex_external c i p = graph c"
    "\<And>c i p. TransposeFirstInput ex_external c i p = graph c"
    by (simp_all add: ex_external_def)
  have len: "length (nodes (graph (ctx ?args))) = 1" and nd: "node ?args = 0"
    by (simp_all add: ex_args_def ex_graph_def)
  from HandleMaxPool_rewrite [OF r]
  obtain n gs g1 n' where live: "GetNode (graph (ctx ?args)) (node ?args) = Some n"
    and g': "g' = TransposeOutputs ex_external
              ((ctx ?args)\<lparr>graph :=
                 TransposeFirstInput ex_external ((ctx ?args)\<lparr>graph := g1\<rparr>)
                   (length (nodes (graph (ctx ?args)))) (perm_inv ?args)\<rparr>)
              (length (nodes (graph (ctx ?args)))) (perm ?args)"
    and new: "GetNode g1 (length (nodes (graph (ctx ?args)))) = Some n'"
      "OpType n' = ''NhwcMaxPool''" "Domain n' = ''com.microsoft''" "SinceVersion n' = 1"
      "Attributes n' = (Attributes n)(''storage_order'' := None)"
      "Inputs n' = Inputs n" "Outputs n' = Outputs n"
    and old: "GetNode g1 (node ?args) = None"
    by blast
  have n_eq: "n = ex_maxpool"
    using live by (simp add: ex_args_def GetNode_ex_graph)
  have g1: "g' = g1"
    using g' by (simp add: stubs)
  have "GetNode g' 1 = Some n'" "OpType n' = ''NhwcMaxPool''"
    "Domain n' = ''com.microsoft''" "SinceVersion n' = 1"
    "Attributes n' ''storage_order'' = None"
    "Attributes n' ''kernel_shape'' = Some (AttrInts [2, 2])"
    "Inputs n' = [''X'']" "Outputs n' = [''Y'']" "GetNode g' 0 = None"
    using new old unfolding len nd n_eq g1
    by (simp_all add: ex_maxpool_def)
  with r show ?thesis by blast
qed

text \<open>
  C9. The MaxPool handler does not check the rank before it calls
  \<^verbatim>\<open>ChannelLastToFirstPerm\<close>: for a node on the CPU provider with an unused second
  output and an 8-bit first output, a pushed permutation of length below 2 reaches the call
  outside its precondition, where the quantized pooling handler returns false.
\<close>

theorem HandleMaxPool_rank_below_two:
  assumes "GetNode (graph (ctx args)) (node args) = Some n"
    and "ExecutionProviderType n = ''CPUExecutionProvider''"
    and "Outputs n \<noteq> []"
    and "\<not> (length (Outputs n) = 2 \<and> Outputs n ! 1 \<noteq> '''')"
    and "DType (GetValueInfo (graph (ctx args)) (Outputs n ! 0)) = UINT8
       \<or> DType (GetValueInfo (graph (ctx args)) (Outputs n ! 0)) = INT8"
    and "length (perm args) < 2"
  shows "HandleMaxPool X args = Inl RankBelowTwo
       \<and> HandleQLinearPoolOp X args = Inr (False, graph (ctx args))"
  using assms
  by (auto simp: HandleMaxPool_def HandleQLinearPoolOp_def Let_def ChannelLastToFirstPerm_def)

theorem HandleMaxPool_rank_below_two_witness:
  "HandleMaxPool ex_external (ex_args ex_maxpool ''CPUExecutionProvider'' [0] [0]) =
     Inl RankBelowTwo
   \<and> HandleQLinearPoolOp ex_external (ex_args ex_maxpool ''CPUExecutionProvider'' [0] [0]) =
     Inr (False, ex_graph ex_maxpool)"
  using HandleMaxPool_rank_below_two
    [of "ex_args ex_maxpool ''CPUExecutionProvider'' [0] [0]" ex_maxpool ex_external]
  by (simp add: ex_args_def GetNode_ex_graph)
     (simp add: ex_maxpool_def GetValueInfo_def ex_graph_def ex_value_info_def)

section \<open>Quantized pooling handler (C4)\<close>

lemma GetNode_SetAttributeInt:
  "GetNode g i = Some n \<Longrightarrow>
   GetNode (SetAttributeInt g i a v) i = Some (n\<lparr>Attributes := (Attributes n)(a \<mapsto> AttrInt v)\<rparr>)"
  by (simp add: SetAttributeInt_def GetNode_update_node)

text \<open>The flip \<open>1 - c\<close> is computed on 64-bit integers; it is the mathematical
  difference for every \<open>c\<close> except the two smallest values.\<close>

lemma channels_last_flip_sint:
  fixes c :: int64
  assumes "- (2 ^ 63) + 2 \<le> sint c"
  shows "sint (1 - c) = 1 - sint c"
proof -
  have up: "sint c < 2 ^ 63"
    using sint_lt [of c] by simp
  have "sint (1 - c) = signed_take_bit 63 (1 - sint c)"
    by (simp add: sint_word_diff)
  also have "\<dots> = 1 - sint c"
    using assms up by (simp add: signed_take_bit_int_eq_self_iff)
  finally show ?thesis .
qed

text \<open>
  C4. Let \<open>c\<close> be the node's \<open>channels_last\<close> attribute (0 when absent). For a pushed
  permutation of length below 2 the handler returns false and leaves the graph as it is.
  From length 2 on the canonical permutation \<open>p\<close> exists, and exactly when \<open>c = 0\<close> and the
  pushed permutation is \<open>p\<close>, or \<open>c \<noteq> 0\<close> and the inverse permutation is \<open>p\<close>, the handler
  sets \<open>channels_last\<close> to \<open>1 - c\<close>, transposes the first input with the inverse
  permutation, then all outputs with the pushed permutation, and returns true; in every
  other case it returns false and leaves the graph as it is.
\<close>

theorem HandleQLinearPoolOp_cases:
  assumes "GetNode (graph (ctx args)) (node args) = Some n"
  shows "(length (perm args) < 2 \<longrightarrow>
            HandleQLinearPoolOp X args = Inr (False, graph (ctx args)))
       \<and> (2 \<le> length (perm args) \<longrightarrow>
            (\<exists>p c g1.
                ChannelLastToFirstPerm (length (perm args)) = Inr p
              \<and> c = GetAttributeIntDefault n ''channels_last'' 0
              \<and> g1 = SetAttributeInt (graph (ctx args)) (node args) ''channels_last'' (1 - c)
              \<and> GetNode g1 (node args) =
                  Some (n\<lparr>Attributes := (Attributes n)(''channels_last'' \<mapsto> AttrInt (1 - c))\<rparr>)
              \<and> HandleQLinearPoolOp X args =
                  (if (c = 0 \<and> perm args = p) \<or> (c \<noteq> 0 \<and> perm_inv args = p)
                   then Inr (True,
                          TransposeOutputs X
                            ((ctx args)\<lparr>graph :=
                               TransposeFirstInput X ((ctx args)\<lparr>graph := g1\<rparr>)
                                 (node args) (perm_inv args)\<rparr>)
                            (node args) (perm args))
                   else Inr (False, graph (ctx args)))))"
proof (intro conjI impI)
  assume "length (perm args) < 2"
  then show "HandleQLinearPoolOp X args = Inr (False, graph (ctx args))"
    using assms by (simp add: HandleQLinearPoolOp_def Let_def)
next
  assume rank: "2 \<le> length (perm args)"
  have p: "ChannelLastToFirstPerm (length (perm args)) =
           Inr (0 # of_nat (length (perm args) - 1) # map of_nat [1..<length (perm args) - 1])"
    using rank by (rule ChannelLastToFirstPerm_defined)
  have not_small: "\<not> length (perm args) < 2"
    using rank by simp
  show "\<exists>p c g1.
                ChannelLastToFirstPerm (length (perm args)) = Inr p
              \<and> c = GetAttributeIntDefault n ''channels_last'' 0
              \<and> g1 = SetAttributeInt (graph (ctx args)) (node args) ''channels_last'' (1 - c)
              \<and> GetNode g1 (node args) =
                  Some (n\<lparr>Attributes := (Attributes n)(''channels_last'' \<mapsto> AttrInt (1 - c))\<rparr>)
              \<and> HandleQLinearPoolOp X args =
                  (if (c = 0 \<and> perm args = p) \<or> (c \<noteq> 0 \<and> perm_inv args = p)
                   then Inr (True,
                          TransposeOutputs X
                            ((ctx args)\<lparr>graph :=
                               TransposeFirstInput X ((ctx args)\<lparr>graph := g1\<rparr>)
                                 (node args) (perm_inv args)\<rparr>)
                            (node args) (perm args))
                   else Inr (False, graph (ctx args)))"
    using assms not_small
    by (simp add: HandleQLinearPoolOp_def Let_def p GetNode_SetAttributeInt)
qed

theorem HandleQLinearPoolOp_cases_witness:
  "HandleQLinearPoolOp ex_external (ex_args ex_qpool '''' [0] [0]) = Inr (False, ex_graph ex_qpool)
   \<and> HandleQLinearPoolOp ex_external (ex_args ex_qpool '''' [0, 3, 1, 2] [0, 2, 3, 1]) =
       Inr (True, SetAttributeInt (ex_graph ex_qpool) 0 ''channels_last'' 1)
   \<and> GetAttributeIntDefault ex_qpool ''channels_last'' 0 = 0
   \<and> HandleQLinearPoolOp ex_external (ex_args ex_qpool '''' [0, 2, 3, 1] [0, 3, 1, 2]) =
       Inr (False, ex_graph ex_qpool)"
proof -
  let ?A1 = "ex_args ex_qpool '''' [0] [0]"
  let ?A2 = "ex_args ex_qpool '''' [0, 3, 1, 2] [0, 2, 3, 1]"
  let ?A3 = "ex_args ex_qpool '''' [0, 2, 3, 1] [0, 3, 1, 2]"
  have live: "\<And>p q. GetNode (graph (ctx (ex_args ex_qpool '''' p q)))
                        (node (ex_args ex_qpool '''' p q)) = Some ex_qpool"
    by (simp add: ex_args_def GetNode_ex_graph)
  have c: "GetAttributeIntDefault ex_qpool ''channels_last'' 0 = 0"
    by (simp add: GetAttributeIntDefault_def ex_qpool_def)
  have "length (perm ?A1) < 2"
    by (simp add: ex_args_def)
  with HandleQLinearPoolOp_cases [OF live, of "[0]" "[0]" ex_external]
  have r1: "HandleQLinearPoolOp ex_external ?A1 = Inr (False, graph (ctx ?A1))"
    by blast
  have "2 \<le> length (perm ?A2)"
    by (simp add: ex_args_def)
  with HandleQLinearPoolOp_cases [OF live, of "[0, 3, 1, 2]" "[0, 2, 3, 1]" ex_external]
  have r2: "HandleQLinearPoolOp ex_external ?A2 =
       Inr (True, SetAttributeInt (ex_graph ex_qpool) 0 ''channels_last'' 1)"
    by (simp add: c ex_args_def ChannelLastToFirstPerm_rank4 ex_external_def)
  have "2 \<le> length (perm ?A3)"
    by (simp add: ex_args_def)
  with HandleQLinearPoolOp_cases [OF live, of "[0, 2, 3, 1]" "[0, 3, 1, 2]" ex_external]
  have r3: "HandleQLinearPoolOp ex_external ?A3 = Inr (False, ex_graph ex_qpool)"
    by (simp add: c ex_args_def ChannelLastToFirstPerm_rank4)
  show ?thesis
    using r1 r2 r3 c by (simp add: ex_args_def)
qed

section \<open>Execution-provider-aware Resize handler (C5)\<close>

text \<open>
  C5, as the claim states it, reads the execution target of the node. The handler reads
  the provider type of the optimizer context instead. Under a context without provider
  type, a Resize node assigned to the CPU provider (neither unset nor one of the four
  layout-sensitive providers) is not handed to the generic handler.
\<close>

theorem EPAwareHandleResize_node_provider_counterexample:
  "GetNode (graph (ctx (ex_args ex_resize '''' [0, 3, 1, 2] [0, 2, 3, 1])))
     (node (ex_args ex_resize '''' [0, 3, 1, 2] [0, 2, 3, 1])) = Some ex_resize
   \<and> ExecutionProviderType ex_resize = ''CPUExecutionProvider''
   \<and> ExecutionProviderType ex_resize \<noteq> ''''
   \<and> ExecutionProviderType ex_resize \<notin> EPsWithLayoutSensitiveResize ex_names
   \<and> HandleResize ex_external (ex_args ex_resize '''' [0, 3, 1, 2] [0, 2, 3, 1]) =
       (True, ex_graph ex_resize)
   \<and> EPAwareHandleResize ex_external ex_names (ex_args ex_resize '''' [0, 3, 1, 2] [0, 2, 3, 1]) =
       (False, ex_graph ex_resize)"
  by (simp add: ex_args_def GetNode_ex_graph EPAwareHandleResize_def
      EPsWithLayoutSensitiveResize_def ex_names_def ex_external_def)
     (simp add: ex_resize_def)

text \<open>
  C5, amended. The handler returns false and leaves the graph as it is whenever the
  provider type of the optimizer context is empty or is one of the four layout-sensitive
  providers; for every other provider type of the context it returns exactly the result
  of the generic Resize handler.
\<close>

theorem EPAwareHandleResize_context_provider:
  "EPAwareHandleResize X K args =
     (if provider_type (ctx args) = ''''
         \<or> provider_type (ctx args) = kCudaExecutionProvider K
         \<or> provider_type (ctx args) = kRocmExecutionProvider K
         \<or> provider_type (ctx args) = kQnnExecutionProvider K
         \<or> provider_type (ctx args) = kInternalTestingExecutionProvider K
      then (False, graph (ctx args))
      else HandleResize X args)"
  by (simp add: EPAwareHandleResize_def EPsWithLayoutSensitiveResize_def Let_def)

theorem EPAwareHandleResize_context_provider_witness:
  "EPAwareHandleResize ex_external ex_names
     (ex_args ex_resize ''CPUExecutionProvider'' [0, 3, 1, 2] [0, 2, 3, 1]) =
     (True, ex_graph ex_resize)
   \<and> EPAwareHandleResize ex_external ex_names
     (ex_args ex_resize ''CUDAExecutionProvider'' [0, 3, 1, 2] [0, 2, 3, 1]) =
     (False, ex_graph ex_resize)"
  using EPAwareHandleResize_context_provider [of ex_external ex_names
      "ex_args ex_resize ''CPUExecutionProvider'' [0, 3, 1, 2] [0, 2, 3, 1]"]
    EPAwareHandleResize_context_provider [of ex_external ex_names
      "ex_args ex_resize ''CUDAExecutionProvider'' [0, 3, 1, 2] [0, 2, 3, 1]"]
  by (simp add: ex_args_def ex_names_def ex_external_def)

section \<open>Cost policy (C6, C7)\<close>

text \<open>
  C6. For a live Resize node (with its input 0), whatever the permutation and the set of
  outputs leading to a transpose, the cost policy returns force-push if the node is
  assigned to the CPU provider, input 0 has a known shape of rank 4, the element type of
  input 0 is UINT8 or INT8, and the attribute \<open>mode\<close> is present and equal to \<open>linear\<close>;
  if any of these fails it returns fall-through.
\<close>

theorem OrtEPCostCheck_Resize:
  assumes "GetNode g nd = Some n"
    and "IsOp n ''Resize''"
    and "Inputs n \<noteq> []"
  shows "OrtEPCostCheck K g nd pm outputs_leading_to_transpose =
         Inr (if ExecutionProviderType n = kCpuExecutionProvider K
                 \<and> (\<exists>s. Shape (GetValueInfo g (Inputs n ! 0)) = Some s \<and> length s = 4)
                 \<and> (DType (GetValueInfo g (Inputs n ! 0)) = UINT8
                    \<or> DType (GetValueInfo g (Inputs n ! 0)) = INT8)
                 \<and> GetAttributeString n ''mode'' = Some ''linear''
              then kPushTranspose else kFallThrough)"
proof -
  have "\<not> IsOp n ''MaxPool''"
    using assms(2) by (auto simp: IsOp_def)
  then show ?thesis
    using assms
    by (auto simp: OrtEPCostCheck_def Let_def split: option.splits)
qed

theorem OrtEPCostCheck_Resize_witness:
  "OrtEPCostCheck ex_names (ex_graph ex_resize) 0 [0, 3, 1, 2] {} = Inr kPushTranspose
   \<and> OrtEPCostCheck ex_names
       (ex_graph (ex_resize\<lparr>Attributes := [''mode'' \<mapsto> AttrString ''nearest'']\<rparr>)) 0
       [0, 3, 1, 2] {} = Inr kFallThrough
   \<and> OrtEPCostCheck ex_names
       (ex_graph (ex_resize\<lparr>Inputs := [''F'', '''', ''scales'']\<rparr>)) 0
       [0, 3, 1, 2] {} = Inr kFallThrough
   \<and> OrtEPCostCheck ex_names
       (ex_graph (ex_resize\<lparr>ExecutionProviderType := ''CUDAExecutionProvider''\<rparr>)) 0
       [0, 3, 1, 2] {} = Inr kFallThrough"
proof -
  let ?N2 = "ex_resize\<lparr>Attributes := [''mode'' \<mapsto> AttrString ''nearest'']\<rparr>"
  let ?N3 = "ex_resize\<lparr>Inputs := [''F'', '''', ''scales'']\<rparr>"
  let ?N4 = "ex_resize\<lparr>ExecutionProviderType := ''CUDAExecutionProvider''\<rparr>"
  have op: "IsOp ex_resize ''Resize''" "IsOp ?N2 ''Resize''" "IsOp ?N3 ''Resize''"
    "IsOp ?N4 ''Resize''"
    by (simp_all add: IsOp_def ex_resize_def)
  have inp: "Inputs ex_resize \<noteq> []" "Inputs ?N2 \<noteq> []" "Inputs ?N3 \<noteq> []" "Inputs ?N4 \<noteq> []"
    by (simp_all add: ex_resize_def)
  have vi: "\<And>n name. GetValueInfo (ex_graph n) name = ex_value_info name"
    by (simp add: GetValueInfo_def ex_graph_def)
  have r1: "OrtEPCostCheck ex_names (ex_graph ex_resize) 0 [0, 3, 1, 2] {} = Inr kPushTranspose"
    using OrtEPCostCheck_Resize [OF GetNode_ex_graph op(1) inp(1), of ex_names "[0, 3, 1, 2]" "{}"]
    by (simp add: vi)
       (simp add: ex_resize_def ex_names_def ex_value_info_def GetAttributeString_def)
  have r2: "OrtEPCostCheck ex_names (ex_graph ?N2) 0 [0, 3, 1, 2] {} = Inr kFallThrough"
    using OrtEPCostCheck_Resize [OF GetNode_ex_graph op(2) inp(2), of ex_names "[0, 3, 1, 2]" "{}"]
    by (simp add: vi) (simp add: GetAttributeString_def)
  have r3: "OrtEPCostCheck ex_names (ex_graph ?N3) 0 [0, 3, 1, 2] {} = Inr kFallThrough"
    using OrtEPCostCheck_Resize [OF GetNode_ex_graph op(3) inp(3), of ex_names "[0, 3, 1, 2]" "{}"]
    by (simp add: vi) (simp add: ex_value_info_def)
  have r4: "OrtEPCostCheck ex_names (ex_graph ?N4) 0 [0, 3, 1, 2] {} = Inr kFallThrough"
    using OrtEPCostCheck_Resize [OF GetNode_ex_graph op(4) inp(4), of ex_names "[0, 3, 1, 2]" "{}"]
    by (simp add: vi) (simp add: ex_names_def)
  show ?thesis
    using r1 r2 r3 r4 by simp
qed

text \<open>
  C7. For a live MaxPool node, whatever the graph, the permutation and the set of outputs
  leading to a transpose, and whatever the node's inputs, outputs, shapes, element types
  and attributes, the cost policy returns force-push exactly when the node is assigned to
  the CPU provider, and fall-through on every other provider.
\<close>

theorem OrtEPCostCheck_MaxPool:
  assumes "GetNode g nd = Some n"
    and "IsOp n ''MaxPool''"
  shows "OrtEPCostCheck K g nd pm outputs_leading_to_transpose =
         Inr (if ExecutionProviderType n = kCpuExecutionProvider K
              then kPushTranspose else kFallThrough)"
  using assms by (simp add: OrtEPCostCheck_def)

theorem OrtEPCostCheck_MaxPool_witness:
  "OrtEPCostCheck ex_names (ex_graph ex_maxpool) 0 [0, 3, 1, 2] {} = Inr kPushTranspose
   \<and> OrtEPCostCheck ex_names
       (ex_graph (ex_maxpool\<lparr>ExecutionProviderType := ''CUDAExecutionProvider''\<rparr>)) 0
       [0, 3, 1, 2] {''Y''} = Inr kFallThrough"
proof -
  let ?N2 = "ex_maxpool\<lparr>ExecutionProviderType := ''CUDAExecutionProvider''\<rparr>"
  have op: "IsOp ex_maxpool ''MaxPool''" "IsOp ?N2 ''MaxPool''"
    by (simp_all add: IsOp_def ex_maxpool_def)
  have r1: "OrtEPCostCheck ex_names (ex_graph ex_maxpool) 0 [0, 3, 1, 2] {} = Inr kPushTranspose"
    using OrtEPCostCheck_MaxPool [OF GetNode_ex_graph op(1), of ex_names "[0, 3, 1, 2]" "{}"]
    by (simp add: ex_maxpool_def ex_names_def)
  have r2: "OrtEPCostCheck ex_names (ex_graph ?N2) 0 [0, 3, 1, 2] {''Y''} = Inr kFallThrough"
    using OrtEPCostCheck_MaxPool [OF GetNode_ex_graph op(2), of ex_names "[0, 3, 1, 2]" "{''Y''}"]
    by (simp add: ex_names_def)
  show ?thesis
    using r1 r2 by simp
qed

section \<open>Handler registries (C8)\<close>

lemma OrtHandlers_entries:
  "OrtHandlers = [(''Resize'', ep_aware_resize_handler)]"
  by (simp add: OrtHandlers_def HandlerMap_init_def HandlerMap_insert_def)

lemma OrtExtendedHandlers_entries:
  "OrtExtendedHandlers =
     [(''MaxPool'', max_pool_op_handler),
      (''com.microsoft.QLinearAdd'', q_linear_binary_op_handler),
      (''com.microsoft.QLinearAveragePool'', q_linear_pool_op_handler),
      (''com.microsoft.QLinearConcat'', q_linear_concat_handler),
      (''com.microsoft.QLinearGlobalAveragePool'', q_linear_pool_op_handler),
      (''com.microsoft.QLinearLeakyRelu'', node_1_inp_handler),
      (''com.microsoft.QLinearMul'', q_linear_binary_op_handler),
      (''com.microsoft.QLinearReduceMean'', reduce_op_handler),
      (''com.microsoft.QLinearSigmoid'', node_1_inp_handler),
      (''Resize'', ep_aware_resize_handler)]"
  by (simp add: OrtExtendedHandlers_def OrtHandlers_entries HandlerMap_init_def
      HandlerMap_insert_def)

text \<open>
  C8. Both registries are constants. The baseline registry holds exactly the \<open>Resize\<close>
  entry, whose handler is the provider-aware Resize handler. Every entry of the baseline
  registry is an entry of the extended registry, which also holds the \<open>MaxPool\<close> entry and
  the \<open>com.microsoft\<close> quantized entries, and nothing else; looking up \<open>Resize\<close> gives the
  same descriptor in both.
\<close>

theorem OrtExtendedHandlers_superset:
  "map_of OrtHandlers \<subseteq>\<^sub>m map_of OrtExtendedHandlers
   \<and> dom (map_of OrtHandlers) = {''Resize''}
   \<and> HandlerMap_find OrtHandlers ''Resize'' = Some ep_aware_resize_handler
   \<and> handler_fn ep_aware_resize_handler = Fn_EPAwareHandleResize
   \<and> HandlerMap_find OrtExtendedHandlers ''Resize'' = HandlerMap_find OrtHandlers ''Resize''
   \<and> HandlerMap_find OrtExtendedHandlers ''MaxPool'' = Some max_pool_op_handler
   \<and> HandlerMap_find OrtExtendedHandlers ''com.microsoft.QLinearAdd'' =
       Some q_linear_binary_op_handler
   \<and> HandlerMap_find OrtExtendedHandlers ''com.microsoft.QLinearAveragePool'' =
       Some q_linear_pool_op_handler
   \<and> HandlerMap_find OrtExtendedHandlers ''com.microsoft.QLinearConcat'' =
       Some q_linear_concat_handler
   \<and> HandlerMap_find OrtExtendedHandlers ''com.microsoft.QLinearGlobalAveragePool'' =
       Some q_linear_pool_op_handler
   \<and> HandlerMap_find OrtExtendedHandlers ''com.microsoft.QLinearLeakyRelu'' =
       Some node_1_inp_handler
   \<and> HandlerMap_find OrtExtendedHandlers ''com.microsoft.QLinearMul'' =
       Some q_linear_binary_op_handler
   \<and> HandlerMap_find OrtExtendedHandlers ''com.microsoft.QLinearReduceMean'' =
       Some reduce_op_handler
   \<and> HandlerMap_find OrtExtendedHandlers ''com.microsoft.QLinearSigmoid'' =
       Some node_1_inp_handler
   \<and> dom (map_of OrtExtendedHandlers) =
       dom (map_of OrtHandlers) \<union>
       {''MaxPool'', ''com.microsoft.QLinearAdd'', ''com.microsoft.QLinearAveragePool'',
        ''com.microsoft.QLinearConcat'', ''com.microsoft.QLinearGlobalAveragePool'',
        ''com.microsoft.QLinearLeakyRelu'', ''com.microsoft.QLinearMul'',
        ''com.microsoft.QLinearReduceMean'', ''com.microsoft.QLinearSigmoid''}
   \<and> distinct (map fst OrtExtendedHandlers)"
proof -
  have le: "map_of OrtHandlers \<subseteq>\<^sub>m map_of OrtExtendedHandlers"
    unfolding OrtHandlers_entries OrtExtendedHandlers_entries
    by (simp add: map_le_def)
  have d0: "dom (map_of OrtHandlers) = {''Resize''}"
    unfolding OrtHandlers_entries by simp
  have d1: "dom (map_of OrtExtendedHandlers) =
       {''Resize''} \<union>
       {''MaxPool'', ''com.microsoft.QLinearAdd'', ''com.microsoft.QLinearAveragePool'',
        ''com.microsoft.QLinearConcat'', ''com.microsoft.QLinearGlobalAveragePool'',
        ''com.microsoft.QLinearLeakyRelu'', ''com.microsoft.QLinearMul'',
        ''com.microsoft.QLinearReduceMean'', ''com.microsoft.QLinearSigmoid''}"
    unfolding OrtExtendedHandlers_entries by (simp add: dom_map_of_conv_image_fst)
  have dist: "distinct (map fst OrtExtendedHandlers)"
    unfolding OrtExtendedHandlers_entries by simp
  have finds:
    "HandlerMap_find OrtHandlers ''Resize'' = Some ep_aware_resize_handler"
    "HandlerMap_find OrtExtendedHandlers ''Resize'' = Some ep_aware_resize_handler"
    "HandlerMap_find OrtExtendedHandlers ''MaxPool'' = Some max_pool_op_handler"
    "HandlerMap_find OrtExtendedHandlers ''com.microsoft.QLinearAdd'' =
       Some q_linear_binary_op_handler"
    "HandlerMap_find OrtExtendedHandlers ''com.microsoft.QLinearAveragePool'' =
       Some q_linear_pool_op_handler"
    "HandlerMap_find OrtExtendedHandlers ''com.microsoft.QLinearConcat'' =
       Some q_linear_concat_handler"
    "HandlerMap_find OrtExtendedHandlers ''com.microsoft.QLinearGlobalAveragePool'' =
       Some q_linear_pool_op_handler"
    "HandlerMap_find OrtExtendedHandlers ''com.microsoft.QLinearLeakyRelu'' =
       Some node_1_inp_handler"
    "HandlerMap_find OrtExtendedHandlers ''com.microsoft.QLinearMul'' =
       Some q_linear_binary_op_handler"
    "HandlerMap_find OrtExtendedHandlers ''com.microsoft.QLinearReduceMean'' =
       Some reduce_op_handler"
    "HandlerMap_find OrtExtendedHandlers ''com.microsoft.QLinearSigmoid'' =
       Some node_1_inp_handler"
    unfolding OrtHandlers_entries OrtExtendedHandlers_entries HandlerMap_find_def
    by simp_all
  have fn: "handler_fn ep_aware_resize_handler = Fn_EPAwareHandleResize"
    by (simp add: ep_aware_resize_handler_def)
  show ?thesis
    using le d0 d1 dist finds fn by simp
qed

theorem OrtExtendedHandlers_superset_witness:
  "HandlerMap_find OrtHandlers ''Resize'' = Some ep_aware_resize_handler
   \<and> HandlerMap_find OrtExtendedHandlers ''Resize'' = Some ep_aware_resize_handler
   \<and> ''Resize'' \<in> dom (map_of OrtExtendedHandlers)"
  using OrtExtendedHandlers_superset by auto

section \<open>Training module constructor (C10)\<close>

text \<open>A loop iteration never adds or removes a key of the parameter table, and a run of
  the loop that ends without error appends the processed names to the three lists.\<close>

lemma classify_input_keys:
  assumes "classify_input U input_name (m, l) = Inr (m', l')"
  shows "(m_parameters m' k = None) = (m_parameters m k = None)"
  using assms
  by (auto simp: classify_input_def Let_def split: option.splits sum.splits if_splits)

text \<open>
  C10. When an input name of the training graph is not a parameter name, parses as a
  gradient name, and the parameter it names is absent from the parameter table, the
  loop iteration raises no error and leaves the module as it was (no parameter gets a
  gradient buffer, no gradient value is recorded) while the name is appended to the list
  of gradient input names: that list grows by one and the list of gradient values does
  not.
\<close>

theorem classify_input_missing_parameter:
  assumes "m_parameters m input_name = None"
    and "GetParamNameFromGradient U input_name = Some param_name"
    and "m_parameters m param_name = None"
  shows "classify_input U input_name (m, l) =
           Inr (m, l\<lparr>grad_input_names := grad_input_names l @ [input_name]\<rparr>)
       \<and> (\<exists>m' l'. classify_input U input_name (m, l) = Inr (m', l')
             \<and> m_parameters m' = m_parameters m
             \<and> m_gradients m' = m_gradients m
             \<and> grad_input_names l' = grad_input_names l @ [input_name]
             \<and> length (grad_input_names l') = Suc (length (grad_input_names l))
             \<and> length (m_gradients m') = length (m_gradients m))"
  using assms by (simp add: classify_input_def Let_def)

theorem classify_input_missing_parameter_witness:
  "ex_parameters ''v_grad'' = None
   \<and> GetParamNameFromGradient ex_utils ''v_grad'' = Some ''v''
   \<and> ex_parameters ''v'' = None
   \<and> (\<exists>m. Module_ctor ex_utils ex_parameters [''x'', ''w'', ''w_grad'', ''v_grad''] = Inr m
        \<and> m_train_input_names m = [''x''] @ [''w''] @ [''w_grad'', ''v_grad'']
        \<and> m_weights m = [Allocated 1]
        \<and> m_gradients m = [Allocated 7]
        \<and> TrainStep_feeds m [Allocated 0] (Allocated 9) =
            [Allocated 0] @ [Allocated 1] @ [Allocated 7] @ [Allocated 9])"
proof -
  define m3 where "m3 =
    \<lparr>m_parameters = ex_parameters(''w'' \<mapsto>
        \<lparr>p_name = ''w'', p_data = Allocated 1, p_gradient = Allocated 7,
          p_requires_grad = True, p_gradient_name = ''w_grad''\<rparr>),
      m_train_input_names = [''x'', ''w'', ''w_grad'', ''v_grad''],
      m_weights = [Allocated 1], m_gradients = [Allocated 7]\<rparr>"
  define l3 where "l3 =
    \<lparr>param_input_names = [''w''], grad_input_names = [''w_grad''], user_input_names = [''x'']\<rparr>"
  have h1: "m_parameters m3 ''v_grad'' = None"
    by (simp add: m3_def ex_parameters_def)
  have h2: "GetParamNameFromGradient ex_utils ''v_grad'' = Some ''v''"
    by (simp add: ex_utils_def)
  have h3: "m_parameters m3 ''v'' = None"
    by (simp add: m3_def ex_parameters_def)
  have prefix: "classify_inputs ex_utils [''x'', ''w'', ''w_grad'', ''v_grad'']
         (\<lparr>m_parameters = ex_parameters,
            m_train_input_names = [''x'', ''w'', ''w_grad'', ''v_grad''],
            m_weights = [], m_gradients = []\<rparr>,
          \<lparr>param_input_names = [], grad_input_names = [], user_input_names = []\<rparr>) =
        classify_inputs ex_utils [''v_grad''] (m3, l3)"
    by (simp add: classify_input_def Let_def ex_parameters_def ex_utils_def AllocateGrad_def
        m3_def l3_def)
  have last: "classify_input ex_utils ''v_grad'' (m3, l3) =
        Inr (m3, l3\<lparr>grad_input_names := grad_input_names l3 @ [''v_grad'']\<rparr>)"
    using classify_input_missing_parameter [OF h1 h2 h3, of l3] by simp
  have "Module_ctor ex_utils ex_parameters [''x'', ''w'', ''w_grad'', ''v_grad''] =
        Inr (m3\<lparr>m_train_input_names := [''x'', ''w'', ''w_grad'', ''v_grad'']\<rparr>)"
    unfolding Module_ctor_def prefix
    by (simp add: last) (simp add: l3_def)
  then show ?thesis
    using h2 by (simp add: ex_parameters_def TrainStep_feeds_def m3_def)
qed

text \<open>
  Over the whole loop: when the constructor returns, the names it stores are the user
  names, then as many parameter names as there are weights, then the gradient names, and
  there are as many gradient names as gradient values plus one for every input name whose
  parameter is missing.
\<close>

lemma missing_parameter_keys:
  assumes "\<And>k. (P' k = None) = (P k = None)"
  shows "missing_parameter U P' = missing_parameter U P"
  by (rule ext) (simp add: missing_parameter_def assms split: option.splits)

lemma classify_input_counts:
  assumes "classify_input U input_name (m, l) = Inr (m', l')"
  shows "length (grad_input_names l') + length (m_gradients m) =
         length (grad_input_names l) + length (m_gradients m') +
         (if missing_parameter U (m_parameters m) input_name then 1 else 0)"
  using assms
  by (auto simp: classify_input_def Let_def missing_parameter_def
      split: option.splits sum.splits if_splits)

lemma classify_inputs_counts:
  assumes "classify_inputs U names (m, l) = Inr (m', l')"
  shows "length (grad_input_names l') + length (m_gradients m) =
         length (grad_input_names l) + length (m_gradients m') +
         length (filter (missing_parameter U (m_parameters m)) names)"
  using assms
proof (induction names arbitrary: m l)
  case Nil
  then show ?case by simp
next
  case (Cons a names)
  then obtain m1 l1 where step: "classify_input U a (m, l) = Inr (m1, l1)"
    and rest: "classify_inputs U names (m1, l1) = Inr (m', l')"
    by (auto split: sum.splits)
  have keys: "missing_parameter U (m_parameters m1) = missing_parameter U (m_parameters m)"
    by (rule missing_parameter_keys) (rule classify_input_keys [OF step])
  show ?case
    using Cons.IH [OF rest] classify_input_counts [OF step] keys by (auto split: if_splits)
qed

lemma classify_inputs_params:
  assumes "classify_inputs U names (m, l) = Inr (m', l')"
  shows "length (param_input_names l') + length (m_weights m) =
         length (param_input_names l) + length (m_weights m')"
  using assms
proof (induction names arbitrary: m l)
  case Nil
  then show ?case by simp
next
  case (Cons a names)
  then obtain m1 l1 where step: "classify_input U a (m, l) = Inr (m1, l1)"
    and rest: "classify_inputs U names (m1, l1) = Inr (m', l')"
    by (auto split: sum.splits)
  have "length (param_input_names l1) + length (m_weights m) =
        length (param_input_names l) + length (m_weights m1)"
    using step
    by (auto simp: classify_input_def Let_def split: option.splits sum.splits if_splits)
  then show ?case
    using Cons.IH [OF rest] by simp
qed

lemma Module_ctor_gradient_names:
  assumes "Module_ctor U P names = Inr m"
  shows "\<exists>users params grads.
           m_train_input_names m = users @ params @ grads
         \<and> length params = length (m_weights m)
         \<and> length grads = length (m_gradients m) + length (filter (missing_parameter U P) names)"
proof -
  obtain m' l' where run: "classify_inputs U names
             (\<lparr>m_parameters = P, m_train_input_names = names,
               m_weights = [], m_gradients = []\<rparr>,
              \<lparr>param_input_names = [], grad_input_names = [], user_input_names = []\<rparr>) =
           Inr (m', l')"
    and m: "m = m'\<lparr>m_train_input_names :=
                   user_input_names l' @ param_input_names l' @ grad_input_names l'\<rparr>"
    using assms by (auto simp: Module_ctor_def split: sum.splits)
  show ?thesis
    using classify_inputs_counts [OF run] classify_inputs_params [OF run] m
    by auto
qed

end
